theory Spec2Isabelle
  imports Main "HOL-Library.Word" "HOL-Library.Sublist"
begin

section \<open>Data model\<close>

text \<open>
  The package builds a listening TCP socket through a linear pipeline of calls into the
  operating system and the Go standard library. The embedding keeps the package's own
  control flow as it is written and makes its surroundings explicit:
  \<^item> the descriptor table and the log of every external call are a \<open>state\<close> record that
    each operation takes and returns;
  \<^item> what the outside world answers (name resolution, interface lookup, the result of each
    system call) is a record \<open>os\<close> of functions, so that every theorem holds for every
    behaviour of the operating system;
  \<^item> the per-platform file (\<open>soReusePort\<close>, the four \<open>enable...\<close> functions and
    \<open>soMaxConn\<close>) is a record \<open>platform\<close>; the BSD file is the value \<open>bsd\<close>;
  \<^item> Go's \<open>error\<close> results are values of the datatype \<open>error\<close>.
\<close>

type_synonym byte = "8 word"

text \<open>A descriptor is a Go \<open>int\<close>; the ones the kernel hands out are never negative.\<close>

type_synonym fd = nat

text \<open>
  Go errors. \<open>New msg\<close> is \<open>errors.New(msg)\<close>; \<open>Errorf format strs err\<close> is
  \<open>fmt.Errorf(format, strs..., err)\<close> with the string operands and the error printed last;
  \<open>Ext txt\<close> is an error value made outside the package (a \<open>syscall.Errno\<close>, an error of
  package \<open>net\<close> or \<open>os\<close>), given by its text.
  \<open>SocketCreationError\<close> and \<open>OptionApplicationError\<close> are the two error kinds of the
  specification's taxonomy that belong to code outside \<open>src/\<close> (see \<open>newSocketCloexec\<close>
  and \<open>full_featured\<close> below).
\<close>

datatype error =
    New string
  | Errorf string "string list" error
  | Ext string
  | SocketCreationError error
  | OptionApplicationError string error

text \<open>Config, as declared in \<open>tcplisten.go\<close>.\<close>

record Config =
  ReusePort :: bool
  DeferAccept :: bool
  FastOpen :: bool
  NoDelay :: bool
  QuickACK :: bool
  Backlog :: int

text \<open>Config, as declared in \<open>tcplisten_windows.go\<close>: no \<open>NoDelay\<close>, no \<open>QuickACK\<close>.\<close>

record Config_windows =
  ReusePort_w :: bool
  DeferAccept_w :: bool
  FastOpen_w :: bool
  Backlog_w :: int

text \<open>\<open>net.TCPAddr\<close>: \<open>IP\<close> is a byte slice (\<open>nil\<close> is the empty list).\<close>

record TCPAddr =
  IP :: "byte list"
  Port :: int
  Zone :: string

text \<open>\<open>net.Interface\<close>, of which only \<open>Index\<close> is read.\<close>

record Interface =
  Index :: int

text \<open>
  \<open>syscall.Sockaddr\<close> with its two implementations used here:
  \<open>SockaddrInet4 {Port int; Addr [4]byte}\<close> and
  \<open>SockaddrInet6 {Port int; ZoneId uint32; Addr [16]byte}\<close>.
\<close>

datatype Sockaddr =
    SockaddrInet4 int "byte list"
  | SockaddrInet6 int "32 word" "byte list"

text \<open>The named constants of package \<open>syscall\<close> that the code passes around.\<close>

datatype family = AF_INET | AF_INET6
datatype socktype = SOCK_STREAM
datatype level = SOL_SOCKET | IPPROTO_TCP
datatype optname = SO_REUSEADDR | TCP_NODELAY | SO_REUSEPORT | OptNumber int

text \<open>\<open>syscall.SOMAXCONN\<close> is \<open>0x80\<close> on every platform of the BSD file.\<close>

definition SOMAXCONN :: int where
  "SOMAXCONN = 128"

text \<open>Every call that leaves the package, with its arguments.\<close>

datatype call =
    ResolveTCPAddr string string
  | InterfaceByName string
  | Socket family socktype level
  | Setsockopt fd level optname int
  | EnableDeferAccept fd
  | EnableFastOpen fd
  | EnableNoDelay fd
  | EnableQuickAck fd
  | SoMaxConn
  | Bind fd Sockaddr
  | Listen fd int
  | Close fd
  | FileListener fd string
  | FileClose fd
  | ListenerClose fd
  | NetListen string string

text \<open>
  The state threaded through the pipeline: the descriptors open in the process and the
  calls made so far, oldest first.
\<close>

record state =
  open_fds :: "fd list"
  trace :: "call list"

definition log :: "call \<Rightarrow> state \<Rightarrow> state" where
  "log c s = s\<lparr>trace := trace s @ [c]\<rparr>"

text \<open>
  The outside world during one call of \<open>NewListener\<close>. \<open>resolve\<close> is
  \<open>net.ResolveTCPAddr\<close>, \<open>iface\<close> is \<open>net.InterfaceByName\<close>, \<open>sys_err c\<close> is the error
  text the call \<open>c\<close> fails with, or \<open>None\<close> when it succeeds, \<open>somaxconn\<close> is what a
  platform's query of the system-wide backlog limit finds, and \<open>pid\<close> is \<open>os.Getpid()\<close>.
  The answer to a call depends on the call and its arguments, so a call that is repeated
  within one run gets the same answer.
\<close>

record os =
  resolve :: "string \<Rightarrow> string \<Rightarrow> string + TCPAddr"
  iface :: "string \<Rightarrow> string + Interface"
  sys_err :: "call \<Rightarrow> string option"
  somaxconn :: "string + int"
  pid :: nat

text \<open>
  The platform file: the constant \<open>soReusePort\<close> and the five functions every build
  target provides. Each \<open>enable...\<close> function takes the descriptor and returns an error or
  \<open>nil\<close>; \<open>soMaxConn\<close> returns the backlog or an error.
\<close>

record platform =
  soReusePort :: optname
  enableDeferAccept :: "fd \<Rightarrow> error option"
  enableFastOpen :: "fd \<Rightarrow> error option"
  enableNoDelay :: "fd \<Rightarrow> error option"
  enableQuickAck :: "fd \<Rightarrow> error option"
  soMaxConn :: "error + int"

section \<open>The BSD platform file\<close>

definition soReusePort_bsd :: optname where
  "soReusePort_bsd = SO_REUSEPORT"

definition enableDeferAccept_bsd :: "fd \<Rightarrow> error option" where
  "enableDeferAccept_bsd fd = None"

definition enableFastOpen_bsd :: "fd \<Rightarrow> error option" where
  "enableFastOpen_bsd fd = None"

definition enableNoDelay_bsd :: "fd \<Rightarrow> error option" where
  "enableNoDelay_bsd fd = None"

definition enableQuickAck_bsd :: "fd \<Rightarrow> error option" where
  "enableQuickAck_bsd fd = None"

definition soMaxConn_bsd :: "error + int" where
  "soMaxConn_bsd = Inr SOMAXCONN"

definition bsd :: platform where
  "bsd = \<lparr>soReusePort = soReusePort_bsd,
          enableDeferAccept = enableDeferAccept_bsd,
          enableFastOpen = enableFastOpen_bsd,
          enableNoDelay = enableNoDelay_bsd,
          enableQuickAck = enableQuickAck_bsd,
          soMaxConn = soMaxConn_bsd\<rparr>"

text \<open>
  Modelled from the spec: the platform file of the full-featured variant is not under
  \<open>src/\<close>. By the specification each of its four tunables sets a kernel option on the
  descriptor, and a failure is an \<open>OptionApplicationError\<close> that carries the option's name
  and wraps the error of the operating system; the backlog query returns the system-wide
  maximum or fails. The option names are those of the comments on \<open>Config\<close>.
\<close>

definition full_featured :: "os \<Rightarrow> platform" where
  "full_featured os =
     \<lparr>soReusePort = SO_REUSEPORT,
      enableDeferAccept = (\<lambda>fd. map_option (\<lambda>e. OptionApplicationError ''TCP_DEFER_ACCEPT'' (Ext e))
                                   (sys_err os (EnableDeferAccept fd))),
      enableFastOpen = (\<lambda>fd. map_option (\<lambda>e. OptionApplicationError ''TCP_FASTOPEN'' (Ext e))
                                (sys_err os (EnableFastOpen fd))),
      enableNoDelay = (\<lambda>fd. map_option (\<lambda>e. OptionApplicationError ''TCP_NODELAY'' (Ext e))
                               (sys_err os (EnableNoDelay fd))),
      enableQuickAck = (\<lambda>fd. map_option (\<lambda>e. OptionApplicationError ''TCP_QUICKACK'' (Ext e))
                                (sys_err os (EnableQuickAck fd))),
      soMaxConn = (case somaxconn os of Inl e \<Rightarrow> Inl (Ext e) | Inr n \<Rightarrow> Inr n)\<rparr>"

section \<open>Standard library and system calls\<close>

text \<open>
  \<open>net.IP.To4\<close> and \<open>net.IP.To16\<close> of the Go standard library: a 4-byte slice is an IPv4
  address, a 16-byte slice with the prefix \<open>0:0:0:0:0:ffff\<close> is an IPv4 address in IPv6
  form, anything else has no 4-byte form; a slice of any other length has no 16-byte form.
\<close>

definition v4InV6Prefix :: "byte list" where
  "v4InV6Prefix = replicate 10 0 @ [0xff, 0xff]"

definition To4 :: "byte list \<Rightarrow> byte list" where
  "To4 ip =
     (if length ip = 4 then ip
      else if length ip = 16 \<and> take 12 ip = v4InV6Prefix then drop 12 ip
      else [])"

definition To16 :: "byte list \<Rightarrow> byte list" where
  "To16 ip =
     (if length ip = 4 then v4InV6Prefix @ ip
      else if length ip = 16 then ip
      else [])"

text \<open>
  The builtin \<open>copy(dst, src)\<close>: the first \<open>min (len dst) (len src)\<close> elements of \<open>dst\<close>
  are overwritten, the rest of \<open>dst\<close> stays.
\<close>

definition copy :: "'a list \<Rightarrow> 'a list \<Rightarrow> 'a list" where
  "copy dst src = take (min (length dst) (length src)) src @ drop (min (length dst) (length src)) dst"

text \<open>A zero-valued \<open>[n]byte\<close> array.\<close>

definition zero_bytes :: "nat \<Rightarrow> byte list" where
  "zero_bytes n = replicate n 0"

definition net_ResolveTCPAddr :: "os \<Rightarrow> string \<Rightarrow> string \<Rightarrow> state \<Rightarrow> (error + TCPAddr) \<times> state" where
  "net_ResolveTCPAddr os network addr s =
     (case resolve os network addr of
        Inl e \<Rightarrow> (Inl (Ext e), log (ResolveTCPAddr network addr) s)
      | Inr a \<Rightarrow> (Inr a, log (ResolveTCPAddr network addr) s))"

definition net_InterfaceByName :: "os \<Rightarrow> string \<Rightarrow> state \<Rightarrow> (error + Interface) \<times> state" where
  "net_InterfaceByName os name s =
     (case iface os name of
        Inl e \<Rightarrow> (Inl (Ext e), log (InterfaceByName name) s)
      | Inr i \<Rightarrow> (Inr i, log (InterfaceByName name) s))"

section \<open>Address resolution\<close>

definition getSockaddr :: "os \<Rightarrow> string \<Rightarrow> string \<Rightarrow> state \<Rightarrow> (error + Sockaddr \<times> family) \<times> state" where
  "getSockaddr os network addr s0 =
     (if network \<noteq> ''tcp'' \<and> network \<noteq> ''tcp4'' \<and> network \<noteq> ''tcp6''
      then (Inl (New ''only tcp4 and tcp6 network is supported''), s0)
      else
        (case net_ResolveTCPAddr os network addr s0 of
           (Inl err, s1) \<Rightarrow> (Inl err, s1)
         | (Inr tcpAddr, s1) \<Rightarrow>
             if network = ''tcp'' \<or> network = ''tcp4'' then
               (Inr (SockaddrInet4 (Port tcpAddr) (copy (zero_bytes 4) (To4 (IP tcpAddr))), AF_INET), s1)
             else if network = ''tcp6'' then
               (if Zone tcpAddr \<noteq> ''''
                then
                  (case net_InterfaceByName os (Zone tcpAddr) s1 of
                     (Inl err, s2) \<Rightarrow> (Inl err, s2)
                   | (Inr ifi, s2) \<Rightarrow>
                       (Inr (SockaddrInet6 (Port tcpAddr) (word_of_int (Index ifi))
                               (copy (zero_bytes 16) (To16 (IP tcpAddr))), AF_INET6), s2))
                else
                  (Inr (SockaddrInet6 (Port tcpAddr) 0
                          (copy (zero_bytes 16) (To16 (IP tcpAddr))), AF_INET6), s1))
             else (Inl (New (''Unknown network type '' @ network)), s1)))"

section \<open>System calls on descriptors\<close>

text \<open>
  The kernel hands out the lowest descriptor number that is not in use.
\<close>

definition lowest_unused :: "fd list \<Rightarrow> fd" where
  "lowest_unused fds = hd (filter (\<lambda>n. n \<notin> set fds) [0..<Suc (length fds)])"

text \<open>
  Modelled from the spec: \<open>newSocketCloexec\<close> is defined in a file that is not under
  \<open>src/\<close>. By the specification it allocates one new descriptor, owned by the caller, or
  fails with a \<open>SocketCreationError\<close> that wraps the error of the operating system, in
  which case no descriptor exists.
\<close>

definition newSocketCloexec :: "os \<Rightarrow> family \<Rightarrow> socktype \<Rightarrow> level \<Rightarrow> state \<Rightarrow> (error + fd) \<times> state" where
  "newSocketCloexec os domain typ proto s =
     (case sys_err os (Socket domain typ proto) of
        Some e \<Rightarrow> (Inl (SocketCreationError (Ext e)), log (Socket domain typ proto) s)
      | None \<Rightarrow>
          (Inr (lowest_unused (open_fds s)),
           log (Socket domain typ proto) (s\<lparr>open_fds := lowest_unused (open_fds s) # open_fds s\<rparr>)))"

definition SetsockoptInt :: "os \<Rightarrow> fd \<Rightarrow> level \<Rightarrow> optname \<Rightarrow> int \<Rightarrow> state \<Rightarrow> error option \<times> state" where
  "SetsockoptInt os fd lvl opt v s =
     (map_option Ext (sys_err os (Setsockopt fd lvl opt v)), log (Setsockopt fd lvl opt v) s)"

definition syscall_Bind :: "os \<Rightarrow> fd \<Rightarrow> Sockaddr \<Rightarrow> state \<Rightarrow> error option \<times> state" where
  "syscall_Bind os fd sa s = (map_option Ext (sys_err os (Bind fd sa)), log (Bind fd sa) s)"

definition syscall_Listen :: "os \<Rightarrow> fd \<Rightarrow> int \<Rightarrow> state \<Rightarrow> error option \<times> state" where
  "syscall_Listen os fd backlog s =
     (map_option Ext (sys_err os (Listen fd backlog)), log (Listen fd backlog) s)"

text \<open>
  \<open>close(2)\<close> releases the descriptor whether or not it reports an error (Linux and the
  BSDs deallocate the descriptor on every error but \<open>EBADF\<close>).
\<close>

definition syscall_Close :: "os \<Rightarrow> fd \<Rightarrow> state \<Rightarrow> error option \<times> state" where
  "syscall_Close os fd s =
     (map_option Ext (sys_err os (Close fd)),
      log (Close fd) (s\<lparr>open_fds := removeAll fd (open_fds s)\<rparr>))"

text \<open>The calls into the platform file, logged like the system calls.\<close>

definition call_enableDeferAccept :: "platform \<Rightarrow> fd \<Rightarrow> state \<Rightarrow> error option \<times> state" where
  "call_enableDeferAccept P fd s = (enableDeferAccept P fd, log (EnableDeferAccept fd) s)"

definition call_enableFastOpen :: "platform \<Rightarrow> fd \<Rightarrow> state \<Rightarrow> error option \<times> state" where
  "call_enableFastOpen P fd s = (enableFastOpen P fd, log (EnableFastOpen fd) s)"

definition call_enableNoDelay :: "platform \<Rightarrow> fd \<Rightarrow> state \<Rightarrow> error option \<times> state" where
  "call_enableNoDelay P fd s = (enableNoDelay P fd, log (EnableNoDelay fd) s)"

definition call_enableQuickAck :: "platform \<Rightarrow> fd \<Rightarrow> state \<Rightarrow> error option \<times> state" where
  "call_enableQuickAck P fd s = (enableQuickAck P fd, log (EnableQuickAck fd) s)"

definition call_soMaxConn :: "platform \<Rightarrow> state \<Rightarrow> (error + int) \<times> state" where
  "call_soMaxConn P s = (soMaxConn P, log SoMaxConn s)"

section \<open>Option application, bind and listen\<close>

text \<open>
  \<open>fdSetup\<close> has a pointer receiver: the \<open>Config\<close> it points to goes in and comes back,
  next to the error (\<open>None\<close> is \<open>nil\<close>) and the state. An \<open>if cfg.X { if err = f(fd); err
  != nil { return err } }\<close> block is the \<open>case\<close> on \<open>if X then f else nil\<close>.
\<close>

definition fdSetup ::
  "platform \<Rightarrow> os \<Rightarrow> Config \<Rightarrow> fd \<Rightarrow> Sockaddr \<Rightarrow> string \<Rightarrow> state \<Rightarrow> error option \<times> Config \<times> state" where
  "fdSetup P os cfg fd sa addr s0 =
    (case SetsockoptInt os fd SOL_SOCKET SO_REUSEADDR 1 s0 of
       (Some err, s1) \<Rightarrow> (Some (Errorf ''cannot enable SO_REUSEADDR: %s'' [] err), cfg, s1)
     | (None, s1) \<Rightarrow>
    (case SetsockoptInt os fd IPPROTO_TCP TCP_NODELAY 1 s1 of
       (Some err, s2) \<Rightarrow>
         (Some (Errorf (''cannot disable Nagle'' @ [CHR 0x27] @ ''s algorithm: %s'') [] err), cfg, s2)
     | (None, s2) \<Rightarrow>
    (case (if ReusePort cfg then SetsockoptInt os fd SOL_SOCKET (soReusePort P) 1 s2 else (None, s2)) of
       (Some err, s3) \<Rightarrow> (Some (Errorf ''cannot enable SO_REUSEPORT: %s'' [] err), cfg, s3)
     | (None, s3) \<Rightarrow>
    (case (if DeferAccept cfg then call_enableDeferAccept P fd s3 else (None, s3)) of
       (Some err, s4) \<Rightarrow> (Some err, cfg, s4)
     | (None, s4) \<Rightarrow>
    (case (if FastOpen cfg then call_enableFastOpen P fd s4 else (None, s4)) of
       (Some err, s5) \<Rightarrow> (Some err, cfg, s5)
     | (None, s5) \<Rightarrow>
    (case (if NoDelay cfg then call_enableNoDelay P fd s5 else (None, s5)) of
       (Some err, s6) \<Rightarrow> (Some err, cfg, s6)
     | (None, s6) \<Rightarrow>
    (case (if QuickACK cfg then call_enableQuickAck P fd s6 else (None, s6)) of
       (Some err, s7) \<Rightarrow> (Some err, cfg, s7)
     | (None, s7) \<Rightarrow>
    (case syscall_Bind os fd sa s7 of
       (Some err, s8) \<Rightarrow> (Some (Errorf ''cannot bind to %q: %s'' [addr] err), cfg, s8)
     | (None, s8) \<Rightarrow>
    (case (if Backlog cfg \<le> 0 then call_soMaxConn P s8 else (Inr (Backlog cfg), s8)) of
       (Inl err, s9) \<Rightarrow>
         (Some (Errorf ''cannot determine backlog to pass to listen(2): %s'' [] err), cfg, s9)
     | (Inr backlog, s9) \<Rightarrow>
    (case syscall_Listen os fd backlog s9 of
       (Some err, s10) \<Rightarrow> (Some (Errorf ''cannot listen on %q: %s'' [addr] err), cfg, s10)
     | (None, s10) \<Rightarrow> (None, cfg, s10)))))))))))"

text \<open>
  The order of calls as the specification lists it: the two unconditional options, the
  five requested ones, bind, the backlog query when no positive backlog is configured, and
  listen with the effective backlog (there is no listen when the query fails).
\<close>

definition option_calls_spec :: "platform \<Rightarrow> Config \<Rightarrow> fd \<Rightarrow> call list" where
  "option_calls_spec P cfg fd =
     [Setsockopt fd SOL_SOCKET SO_REUSEADDR 1, Setsockopt fd IPPROTO_TCP TCP_NODELAY 1]
     @ (if ReusePort cfg then [Setsockopt fd SOL_SOCKET (soReusePort P) 1] else [])
     @ (if DeferAccept cfg then [EnableDeferAccept fd] else [])
     @ (if FastOpen cfg then [EnableFastOpen fd] else [])
     @ (if NoDelay cfg then [EnableNoDelay fd] else [])
     @ (if QuickACK cfg then [EnableQuickAck fd] else [])"

definition listen_calls_spec :: "platform \<Rightarrow> Config \<Rightarrow> fd \<Rightarrow> call list" where
  "listen_calls_spec P cfg fd =
     (if 0 < Backlog cfg then [Listen fd (Backlog cfg)]
      else (case soMaxConn P of
              Inl e \<Rightarrow> [SoMaxConn]
            | Inr n \<Rightarrow> [SoMaxConn, Listen fd n]))"

definition fdSetup_calls_spec :: "platform \<Rightarrow> Config \<Rightarrow> fd \<Rightarrow> Sockaddr \<Rightarrow> call list" where
  "fdSetup_calls_spec P cfg fd sa =
     option_calls_spec P cfg fd @ [Bind fd sa] @ listen_calls_spec P cfg fd"

section \<open>Building the listener\<close>

text \<open>The \<open>%d\<close> verb on a process id.\<close>

fun itoa :: "nat \<Rightarrow> string" where
  "itoa n =
     (if n < 10 then [''0123456789'' ! n]
      else itoa (n div 10) @ [''0123456789'' ! (n mod 10)])"

declare itoa.simps [simp del]

text \<open>\<open>os.File\<close> as made by \<open>os.NewFile\<close>: the descriptor and the name.\<close>

record File =
  file_fd :: fd
  file_name :: string

text \<open>A \<open>net.Listener\<close>: the descriptor it owns.\<close>

datatype Listener = TCPListener fd

definition os_NewFile :: "fd \<Rightarrow> string \<Rightarrow> File" where
  "os_NewFile fd name = \<lparr>file_fd = fd, file_name = name\<rparr>"

text \<open>
  \<open>net.FileListener\<close> duplicates the file's descriptor for the listener it returns and
  leaves the file open; when it fails the duplicate does not exist.
\<close>

definition net_FileListener :: "os \<Rightarrow> File \<Rightarrow> state \<Rightarrow> (error + Listener) \<times> state" where
  "net_FileListener os file s =
     (case sys_err os (FileListener (file_fd file) (file_name file)) of
        Some e \<Rightarrow> (Inl (Ext e), log (FileListener (file_fd file) (file_name file)) s)
      | None \<Rightarrow>
          (Inr (TCPListener (lowest_unused (open_fds s))),
           log (FileListener (file_fd file) (file_name file))
             (s\<lparr>open_fds := lowest_unused (open_fds s) # open_fds s\<rparr>)))"

definition File_Close :: "os \<Rightarrow> File \<Rightarrow> state \<Rightarrow> error option \<times> state" where
  "File_Close os file s =
     (map_option Ext (sys_err os (FileClose (file_fd file))),
      log (FileClose (file_fd file)) (s\<lparr>open_fds := removeAll (file_fd file) (open_fds s)\<rparr>))"

definition Listener_Close :: "os \<Rightarrow> Listener \<Rightarrow> state \<Rightarrow> error option \<times> state" where
  "Listener_Close os ln s =
     (case ln of TCPListener lfd \<Rightarrow>
        (map_option Ext (sys_err os (ListenerClose lfd)),
         log (ListenerClose lfd) (s\<lparr>open_fds := removeAll lfd (open_fds s)\<rparr>)))"

definition NewListener ::
  "platform \<Rightarrow> os \<Rightarrow> string \<Rightarrow> string \<Rightarrow> Config \<Rightarrow> state \<Rightarrow> (error + Listener) \<times> state" where
  "NewListener P os network addr cfg s0 =
    (case getSockaddr os network addr s0 of
       (Inl err, s1) \<Rightarrow> (Inl err, s1)
     | (Inr (sa, soType), s1) \<Rightarrow>
    (case newSocketCloexec os soType SOCK_STREAM IPPROTO_TCP s1 of
       (Inl err, s2) \<Rightarrow> (Inl err, s2)
     | (Inr fd, s2) \<Rightarrow>
    (case fdSetup P os cfg fd sa addr s2 of
       (Some err, cfg', s3) \<Rightarrow> (Inl err, snd (syscall_Close os fd s3))
     | (None, cfg', s3) \<Rightarrow>
        (let name = ''reuseport.'' @ itoa (pid os) @ ''.'' @ network @ ''.'' @ addr;
             file = os_NewFile fd name
         in
    (case net_FileListener os file s3 of
       (Inl err, s4) \<Rightarrow> (Inl err, snd (File_Close os file s4))
     | (Inr ln, s4) \<Rightarrow>
    (case File_Close os file s4 of
       (Some err, s5) \<Rightarrow> (Inl err, snd (Listener_Close os ln s5))
     | (None, s5) \<Rightarrow> (Inr ln, s5)))))))"

section \<open>The variant without socket-level access\<close>

text \<open>
  \<open>net.Listen\<close> of the Go standard library. Which networks it serves and what it
  answers for a network and an address are its own and the operating system's business:
  the answer is \<open>sys_err os (NetListen network addr)\<close>. A listener that is returned owns
  a new descriptor; when an error is returned no descriptor stays behind.
\<close>

definition net_Listen :: "os \<Rightarrow> string \<Rightarrow> string \<Rightarrow> state \<Rightarrow> (error + Listener) \<times> state" where
  "net_Listen os network addr s =
     (case sys_err os (NetListen network addr) of
        Some e \<Rightarrow> (Inl (Ext e), log (NetListen network addr) s)
      | None \<Rightarrow>
          (Inr (TCPListener (lowest_unused (open_fds s))),
           log (NetListen network addr)
             (s\<lparr>open_fds := lowest_unused (open_fds s) # open_fds s\<rparr>)))"

definition NewListener_windows ::
  "os \<Rightarrow> string \<Rightarrow> string \<Rightarrow> Config_windows \<Rightarrow> state \<Rightarrow> (error + Listener) \<times> state" where
  "NewListener_windows os network addr cfg s = net_Listen os network addr s"

section \<open>The call sequence of fdSetup as a list\<close>

text \<open>
  Since each call's outcome is a function of the call, \<open>fdSetup\<close> is the run of a list of
  steps, each a call with the error that \<open>fdSetup\<close> returns when the call fails: the run
  stops at the first step that has an error. The definitions below are that list and its
  run; \<open>fdSetup_run\<close> proves that they are \<open>fdSetup\<close>.
\<close>

definition listen_steps :: "platform \<Rightarrow> os \<Rightarrow> Config \<Rightarrow> fd \<Rightarrow> string \<Rightarrow> (call \<times> error option) list" where
  "listen_steps P os cfg fd addr =
     (if Backlog cfg \<le> 0
      then (case soMaxConn P of
              Inl e \<Rightarrow>
                [(SoMaxConn, Some (Errorf ''cannot determine backlog to pass to listen(2): %s'' [] e))]
            | Inr n \<Rightarrow>
                [(SoMaxConn, None),
                 (Listen fd n,
                  map_option (Errorf ''cannot listen on %q: %s'' [addr])
                    (map_option Ext (sys_err os (Listen fd n))))])
      else [(Listen fd (Backlog cfg),
             map_option (Errorf ''cannot listen on %q: %s'' [addr])
               (map_option Ext (sys_err os (Listen fd (Backlog cfg)))))])"

definition option_steps :: "platform \<Rightarrow> os \<Rightarrow> Config \<Rightarrow> fd \<Rightarrow> (call \<times> error option) list" where
  "option_steps P os cfg fd =
     [(Setsockopt fd SOL_SOCKET SO_REUSEADDR 1,
       map_option (Errorf ''cannot enable SO_REUSEADDR: %s'' [])
         (map_option Ext (sys_err os (Setsockopt fd SOL_SOCKET SO_REUSEADDR 1)))),
      (Setsockopt fd IPPROTO_TCP TCP_NODELAY 1,
       map_option (Errorf (''cannot disable Nagle'' @ [CHR 0x27] @ ''s algorithm: %s'') [])
         (map_option Ext (sys_err os (Setsockopt fd IPPROTO_TCP TCP_NODELAY 1))))]
     @ (if ReusePort cfg
        then [(Setsockopt fd SOL_SOCKET (soReusePort P) 1,
               map_option (Errorf ''cannot enable SO_REUSEPORT: %s'' [])
                 (map_option Ext (sys_err os (Setsockopt fd SOL_SOCKET (soReusePort P) 1))))]
        else [])
     @ (if DeferAccept cfg then [(EnableDeferAccept fd, enableDeferAccept P fd)] else [])
     @ (if FastOpen cfg then [(EnableFastOpen fd, enableFastOpen P fd)] else [])
     @ (if NoDelay cfg then [(EnableNoDelay fd, enableNoDelay P fd)] else [])
     @ (if QuickACK cfg then [(EnableQuickAck fd, enableQuickAck P fd)] else [])"

definition fdSetup_steps ::
  "platform \<Rightarrow> os \<Rightarrow> Config \<Rightarrow> fd \<Rightarrow> Sockaddr \<Rightarrow> string \<Rightarrow> (call \<times> error option) list" where
  "fdSetup_steps P os cfg fd sa addr =
     option_steps P os cfg fd
     @ [(Bind fd sa,
         map_option (Errorf ''cannot bind to %q: %s'' [addr]) (map_option Ext (sys_err os (Bind fd sa))))]
     @ listen_steps P os cfg fd addr"

fun run :: "(call \<times> error option) list \<Rightarrow> state \<Rightarrow> error option \<times> state" where
  "run [] s = (None, s)"
| "run ((c, r) # xs) s = (case r of Some e \<Rightarrow> (Some e, log c s) | None \<Rightarrow> run xs (log c s))"

definition step ::
  "error option \<times> state \<Rightarrow> (error \<Rightarrow> error) \<Rightarrow> Config \<Rightarrow> (state \<Rightarrow> error option \<times> Config \<times> state)
     \<Rightarrow> error option \<times> Config \<times> state" where
  "step x w cfg k = (case x of (Some err, s1) \<Rightarrow> (Some (w err), cfg, s1) | (None, s1) \<Rightarrow> k s1)"

definition listen_tail ::
  "platform \<Rightarrow> os \<Rightarrow> Config \<Rightarrow> fd \<Rightarrow> string \<Rightarrow> state \<Rightarrow> error option \<times> Config \<times> state" where
  "listen_tail P os cfg fd addr s8 =
    (case (if Backlog cfg \<le> 0 then call_soMaxConn P s8 else (Inr (Backlog cfg), s8)) of
       (Inl err, s9) \<Rightarrow>
         (Some (Errorf ''cannot determine backlog to pass to listen(2): %s'' [] err), cfg, s9)
     | (Inr backlog, s9) \<Rightarrow>
    (case syscall_Listen os fd backlog s9 of
       (Some err, s10) \<Rightarrow> (Some (Errorf ''cannot listen on %q: %s'' [addr] err), cfg, s10)
     | (None, s10) \<Rightarrow> (None, cfg, s10)))"

definition with_cfg :: "Config \<Rightarrow> error option \<times> state \<Rightarrow> error option \<times> Config \<times> state" where
  "with_cfg cfg p = (fst p, cfg, snd p)"


text \<open>The calls a run makes, and the error it ends with.\<close>

fun made :: "(call \<times> error option) list \<Rightarrow> call list" where
  "made [] = []"
| "made ((c, r) # xs) = c # (case r of Some e \<Rightarrow> [] | None \<Rightarrow> made xs)"

fun first_err :: "(call \<times> error option) list \<Rightarrow> error option" where
  "first_err [] = None"
| "first_err ((c, r) # xs) = (case r of Some e \<Rightarrow> Some e | None \<Rightarrow> first_err xs)"

text \<open>The calls made between two states of one pipeline.\<close>

definition calls_during :: "state \<Rightarrow> state \<Rightarrow> call list" where
  "calls_during s s' = drop (length (trace s)) (trace s')"

section \<open>Concrete inputs\<close>

text \<open>
  A process with the three standard descriptors open, and operating systems that answer
  in a fixed way: \<open>os_ok\<close> resolves five addresses, knows the interface \<open>eth0\<close> and
  lets every call succeed; the others differ from it in one answer.
\<close>

definition s_init :: state where
  "s_init = \<lparr>open_fds = [0, 1, 2], trace = []\<rparr>"

definition cfg_default :: Config where
  "cfg_default = \<lparr>ReusePort = False, DeferAccept = False, FastOpen = False, NoDelay = False,
                  QuickACK = False, Backlog = 0\<rparr>"

definition cfg_all :: Config where
  "cfg_all = \<lparr>ReusePort = True, DeferAccept = True, FastOpen = True, NoDelay = True,
              QuickACK = True, Backlog = 17\<rparr>"

definition cfg_windows :: Config_windows where
  "cfg_windows = \<lparr>ReusePort_w = False, DeferAccept_w = False, FastOpen_w = False, Backlog_w = 0\<rparr>"

definition resolve_fixed :: "string \<Rightarrow> string \<Rightarrow> string + TCPAddr" where
  "resolve_fixed network addr =
     (if addr = ''127.0.0.1:8080'' then Inr \<lparr>IP = [127, 0, 0, 1], Port = 8080, Zone = ''''\<rparr>
      else if addr = '':8080'' then Inr \<lparr>IP = [], Port = 8080, Zone = ''''\<rparr>
      else if addr = ''[::1]:8080'' then Inr \<lparr>IP = replicate 15 0 @ [1], Port = 8080, Zone = ''''\<rparr>
      else if addr = ''[fe80::1%eth0]:8080''
        then Inr \<lparr>IP = [0xfe, 0x80] @ replicate 13 0 @ [1], Port = 8080, Zone = ''eth0''\<rparr>
      else if addr = ''[fe80::1%nosuch0]:8080''
        then Inr \<lparr>IP = [0xfe, 0x80] @ replicate 13 0 @ [1], Port = 8080, Zone = ''nosuch0''\<rparr>
      else Inl ''missing port in address'')"

definition iface_fixed :: "string \<Rightarrow> string + Interface" where
  "iface_fixed name =
     (if name = ''eth0'' then Inr \<lparr>Index = 2\<rparr> else Inl ''no such network interface'')"

definition os_ok :: os where
  "os_ok = \<lparr>resolve = resolve_fixed,
            iface = iface_fixed,
            sys_err = (\<lambda>c. None),
            somaxconn = Inr 4096,
            pid = 4242\<rparr>"

definition os_bind_fails :: os where
  "os_bind_fails =
     os_ok\<lparr>sys_err := (\<lambda>c. case c of Bind fd sa \<Rightarrow> Some ''address already in use'' | _ \<Rightarrow> None)\<rparr>"

definition os_query_fails :: os where
  "os_query_fails = os_ok\<lparr>somaxconn := Inl ''permission denied''\<rparr>"

definition os_reuseport_fails :: os where
  "os_reuseport_fails =
     os_ok\<lparr>sys_err := (\<lambda>c. case c of
                                Setsockopt fd lvl opt v \<Rightarrow>
                                  (if opt = SO_REUSEPORT then Some ''protocol not available'' else None)
                              | _ \<Rightarrow> None)\<rparr>"

definition os_defer_fails :: os where
  "os_defer_fails =
     os_ok\<lparr>sys_err := (\<lambda>c. case c of EnableDeferAccept fd \<Rightarrow> Some ''protocol not available''
                              | _ \<Rightarrow> None)\<rparr>"

section \<open>fdSetup is the run of its steps\<close>

lemma fdSetup_step_form:
  "fdSetup P os cfg fd sa addr s0 =
    step (SetsockoptInt os fd SOL_SOCKET SO_REUSEADDR 1 s0)
      (Errorf ''cannot enable SO_REUSEADDR: %s'' []) cfg
    (\<lambda>s1. step (SetsockoptInt os fd IPPROTO_TCP TCP_NODELAY 1 s1)
      (Errorf (''cannot disable Nagle'' @ [CHR 0x27] @ ''s algorithm: %s'') []) cfg
    (\<lambda>s2. step (if ReusePort cfg then SetsockoptInt os fd SOL_SOCKET (soReusePort P) 1 s2 else (None, s2))
      (Errorf ''cannot enable SO_REUSEPORT: %s'' []) cfg
    (\<lambda>s3. step (if DeferAccept cfg then call_enableDeferAccept P fd s3 else (None, s3)) (\<lambda>err. err) cfg
    (\<lambda>s4. step (if FastOpen cfg then call_enableFastOpen P fd s4 else (None, s4)) (\<lambda>err. err) cfg
    (\<lambda>s5. step (if NoDelay cfg then call_enableNoDelay P fd s5 else (None, s5)) (\<lambda>err. err) cfg
    (\<lambda>s6. step (if QuickACK cfg then call_enableQuickAck P fd s6 else (None, s6)) (\<lambda>err. err) cfg
    (\<lambda>s7. step (syscall_Bind os fd sa s7) (Errorf ''cannot bind to %q: %s'' [addr]) cfg
    (listen_tail P os cfg fd addr))))))))"
  unfolding fdSetup_def step_def listen_tail_def by (rule refl)

lemma step_run:
  assumes "\<And>s. k s = with_cfg cfg (run rest s)"
  shows "step (r, log c s) w cfg k = with_cfg cfg (run ((c, map_option w r) # rest) s)"
  by (cases r) (simp_all add: step_def with_cfg_def assms)

lemma step_if_run:
  assumes "\<And>s. k s = with_cfg cfg (run rest s)"
  shows "step (if b then (r, log c s) else (None, s)) w cfg k =
         with_cfg cfg (run ((if b then [(c, map_option w r)] else []) @ rest) s)"
  by (cases b; cases r) (simp_all add: step_def with_cfg_def assms)

lemma listen_tail_run:
  "listen_tail P os cfg fd addr s = with_cfg cfg (run (listen_steps P os cfg fd addr) s)"
  by (simp add: listen_tail_def listen_steps_def call_soMaxConn_def syscall_Listen_def with_cfg_def
      split: sum.splits option.splits)

lemma fdSetup_run:
  "fdSetup P os cfg fd sa addr s = with_cfg cfg (run (fdSetup_steps P os cfg fd sa addr) s)"
  unfolding fdSetup_step_form fdSetup_steps_def option_steps_def
    SetsockoptInt_def syscall_Bind_def call_enableDeferAccept_def call_enableFastOpen_def
    call_enableNoDelay_def call_enableQuickAck_def append_assoc append_Cons append_Nil
  by (intro step_run step_if_run listen_tail_run
        step_if_run [where w = "\<lambda>err. err", unfolded option.map_ident])


lemma run_closed_form: "run xs s = (first_err xs, s\<lparr>trace := trace s @ made xs\<rparr>)"
proof (induction xs arbitrary: s)
  case Nil
  show ?case by simp
next
  case (Cons x xs)
  obtain c r where x: "x = (c, r)" by (cases x)
  show ?case
  proof (cases r)
    case None
    then show ?thesis by (simp add: x Cons.IH log_def)
  next
    case (Some e)
    then show ?thesis by (simp add: x log_def)
  qed
qed

lemma fdSetup_closed_form:
  "fdSetup P os cfg fd sa addr s =
     (first_err (fdSetup_steps P os cfg fd sa addr), cfg,
      s\<lparr>trace := trace s @ made (fdSetup_steps P os cfg fd sa addr)\<rparr>)"
  by (simp add: fdSetup_run with_cfg_def run_closed_form)

lemma first_err_append:
  "first_err (xs @ ys) = (case first_err xs of Some e \<Rightarrow> Some e | None \<Rightarrow> first_err ys)"
  by (induction xs rule: first_err.induct) (auto split: option.splits)

lemma made_append:
  "made (xs @ ys) = (case first_err xs of Some e \<Rightarrow> made xs | None \<Rightarrow> made xs @ made ys)"
  by (induction xs rule: made.induct) (auto split: option.splits)

lemma made_prefix: "prefix (made xs) (map fst xs)"
  by (induction xs rule: made.induct) (auto split: option.splits)

lemma made_all: "first_err xs = None \<Longrightarrow> made xs = map fst xs"
  by (induction xs rule: made.induct) (auto split: option.splits)

lemma made_subset: "set (made xs) \<subseteq> fst ` set xs"
  using made_prefix [of xs] by (metis set_map set_mono_prefix)

lemma made_reaches:
  "c \<in> set (made (xs @ ys)) \<Longrightarrow> c \<notin> fst ` set xs \<Longrightarrow> first_err xs = None \<and> c \<in> set (made ys)"
  using made_subset [of xs] by (auto simp: made_append split: option.splits)

lemma calls_during_append [simp]: "calls_during s (s'\<lparr>trace := trace s @ cs\<rparr>) = cs"
  by (simp add: calls_during_def)

subsection \<open>The steps and the specification's order\<close>

lemma map_fst_if: "map fst (if b then [(c, r)] else []) = (if b then [c] else [])"
  by simp

lemma option_steps_calls: "map fst (option_steps P os cfg fd) = option_calls_spec P cfg fd"
  unfolding option_steps_def option_calls_spec_def map_append map_fst_if
  by simp

lemma listen_steps_calls: "map fst (listen_steps P os cfg fd addr) = listen_calls_spec P cfg fd"
  by (auto simp: listen_steps_def listen_calls_spec_def split: sum.splits)

lemma fdSetup_steps_calls:
  "map fst (fdSetup_steps P os cfg fd sa addr) = fdSetup_calls_spec P cfg fd sa"
  by (simp add: fdSetup_steps_def fdSetup_calls_spec_def option_steps_calls listen_steps_calls)

subsection \<open>Descriptors\<close>

lemma lowest_unused_fresh: "lowest_unused fds \<notin> set fds"
proof -
  let ?c = "filter (\<lambda>n. n \<notin> set fds) [0..<Suc (length fds)]"
  have "?c \<noteq> []"
  proof
    assume "?c = []"
    then have "{0..<Suc (length fds)} \<subseteq> set fds"
      unfolding filter_empty_conv by (auto simp del: upt_Suc)
    then have "card {0..<Suc (length fds)} \<le> card (set fds)"
      by (intro card_mono) auto
    moreover have "card (set fds) \<le> length fds" by (rule card_length)
    ultimately show False by simp
  qed
  then have "hd ?c \<in> set ?c" by (rule hd_in_set)
  then have "hd ?c \<notin> set fds" by (simp del: upt_Suc)
  then show ?thesis unfolding lowest_unused_def .
qed

lemma lowest_unused_fresh_Cons:
  "lowest_unused (x # fds) \<noteq> x" "x \<noteq> lowest_unused (x # fds)" "lowest_unused (x # fds) \<notin> set fds"
  using lowest_unused_fresh [of "x # fds"] by auto

lemma getSockaddr_open_fds: "open_fds (snd (getSockaddr os network addr s)) = open_fds s"
  by (auto simp: getSockaddr_def net_ResolveTCPAddr_def net_InterfaceByName_def log_def
      split: sum.splits)

lemma getSockaddr_trace:
  "\<exists>cs. trace (snd (getSockaddr os network addr s)) = trace s @ cs
        \<and> set cs \<subseteq> {ResolveTCPAddr network addr} \<union> range InterfaceByName"
  by (auto simp: getSockaddr_def net_ResolveTCPAddr_def net_InterfaceByName_def log_def
      split: sum.splits)

subsection \<open>Runs on the concrete inputs\<close>

lemma lowest_unused_init:
  "lowest_unused [0, 1, 2] = 3" "lowest_unused [3, 0, 1, 2] = 4"
  "lowest_unused [0, Suc 0, 2] = 3" "lowest_unused [3, 0, Suc 0, 2] = 4"
  by (simp_all add: lowest_unused_def upt_rec)

lemma itoa_4242: "itoa 4242 = ''4242''"
  by (simp add: itoa.simps)

lemmas eval_defs = NewListener_def getSockaddr_def net_ResolveTCPAddr_def newSocketCloexec_def
  fdSetup_def SetsockoptInt_def syscall_Bind_def syscall_Listen_def syscall_Close_def
  call_enableDeferAccept_def call_enableFastOpen_def call_enableNoDelay_def
  call_enableQuickAck_def call_soMaxConn_def net_FileListener_def File_Close_def
  Listener_Close_def os_NewFile_def log_def
  bsd_def soReusePort_bsd_def enableDeferAccept_bsd_def enableFastOpen_bsd_def
  enableNoDelay_bsd_def enableQuickAck_bsd_def soMaxConn_bsd_def SOMAXCONN_def full_featured_def
  os_ok_def os_query_fails_def os_bind_fails_def os_reuseport_fails_def os_defer_fails_def
  resolve_fixed_def copy_def zero_bytes_def To4_def
  s_init_def cfg_all_def cfg_default_def lowest_unused_init itoa_4242 Let_def

lemma run_ok_all:
  "NewListener bsd os_ok ''tcp4'' ''127.0.0.1:8080'' cfg_all s_init =
   (Inr (TCPListener 4),
    \<lparr>open_fds = [4, 0, 1, 2],
     trace =
       [ResolveTCPAddr ''tcp4'' ''127.0.0.1:8080'',
        Socket AF_INET SOCK_STREAM IPPROTO_TCP,
        Setsockopt 3 SOL_SOCKET SO_REUSEADDR 1,
        Setsockopt 3 IPPROTO_TCP TCP_NODELAY 1,
        Setsockopt 3 SOL_SOCKET SO_REUSEPORT 1, EnableDeferAccept 3,
        EnableFastOpen 3, EnableNoDelay 3, EnableQuickAck 3,
        Bind 3 (SockaddrInet4 8080 [127, 0, 0, 1]), Listen 3 17,
        FileListener 3 ''reuseport.4242.tcp4.127.0.0.1:8080'',
        FileClose 3]\<rparr>)"
  by (simp add: eval_defs)

lemma run_ok_default:
  "NewListener bsd os_ok ''tcp4'' ''127.0.0.1:8080'' cfg_default s_init =
   (Inr (TCPListener 4),
    \<lparr>open_fds = [4, 0, 1, 2],
     trace =
       [ResolveTCPAddr ''tcp4'' ''127.0.0.1:8080'',
        Socket AF_INET SOCK_STREAM IPPROTO_TCP,
        Setsockopt 3 SOL_SOCKET SO_REUSEADDR 1,
        Setsockopt 3 IPPROTO_TCP TCP_NODELAY 1,
        Bind 3 (SockaddrInet4 8080 [127, 0, 0, 1]), SoMaxConn, Listen 3 128,
        FileListener 3 ''reuseport.4242.tcp4.127.0.0.1:8080'',
        FileClose 3]\<rparr>)"
  by (simp add: eval_defs)

lemma run_query_fails:
  "NewListener (full_featured os_query_fails) os_query_fails ''tcp4'' ''127.0.0.1:8080''
     cfg_default s_init =
   (Inl (Errorf ''cannot determine backlog to pass to listen(2): %s'' [] (Ext ''permission denied'')),
    \<lparr>open_fds = [0, 1, 2],
     trace =
       [ResolveTCPAddr ''tcp4'' ''127.0.0.1:8080'',
        Socket AF_INET SOCK_STREAM IPPROTO_TCP,
        Setsockopt 3 SOL_SOCKET SO_REUSEADDR 1,
        Setsockopt 3 IPPROTO_TCP TCP_NODELAY 1,
        Bind 3 (SockaddrInet4 8080 [127, 0, 0, 1]), SoMaxConn, Close 3]\<rparr>)"
  by (simp add: eval_defs)

lemma run_reuseport_fails:
  "NewListener bsd os_reuseport_fails ''tcp4'' ''127.0.0.1:8080'' cfg_all s_init =
   (Inl (Errorf ''cannot enable SO_REUSEPORT: %s'' [] (Ext ''protocol not available'')),
    \<lparr>open_fds = [0, 1, 2],
     trace =
       [ResolveTCPAddr ''tcp4'' ''127.0.0.1:8080'',
        Socket AF_INET SOCK_STREAM IPPROTO_TCP,
        Setsockopt 3 SOL_SOCKET SO_REUSEADDR 1,
        Setsockopt 3 IPPROTO_TCP TCP_NODELAY 1,
        Setsockopt 3 SOL_SOCKET SO_REUSEPORT 1, Close 3]\<rparr>)"
  by (simp add: eval_defs)

lemma run_defer_fails:
  "NewListener (full_featured os_defer_fails) os_defer_fails ''tcp4'' ''127.0.0.1:8080''
     cfg_all s_init =
   (Inl (OptionApplicationError ''TCP_DEFER_ACCEPT'' (Ext ''protocol not available'')),
    \<lparr>open_fds = [0, 1, 2],
     trace =
       [ResolveTCPAddr ''tcp4'' ''127.0.0.1:8080'',
        Socket AF_INET SOCK_STREAM IPPROTO_TCP,
        Setsockopt 3 SOL_SOCKET SO_REUSEADDR 1,
        Setsockopt 3 IPPROTO_TCP TCP_NODELAY 1,
        Setsockopt 3 SOL_SOCKET SO_REUSEPORT 1, EnableDeferAccept 3,
        Close 3]\<rparr>)"
  by (simp add: eval_defs)

section \<open>Results\<close>

subsection \<open>No descriptor outlives a failed call\<close>

text \<open>
  C1. Whenever \<open>NewListener\<close> returns an error, the descriptors open afterwards are those
  that were open before the call: the socket descriptor, the file that wraps it and the
  descriptor of a listener that was already built have all been closed.
\<close>

theorem NewListener_error_closes_descriptors:
  assumes "NewListener P os network addr cfg s = (Inl e, s')"
  shows "open_fds s' = open_fds s"
proof -
  obtain g s1 where g: "getSockaddr os network addr s = (g, s1)"
    by (cases "getSockaddr os network addr s")
  have fds1: "open_fds s1 = open_fds s"
    using getSockaddr_open_fds [of os network addr s] by (simp add: g)
  show ?thesis
    using assms fds1
    by (auto simp: NewListener_def g fdSetup_closed_form newSocketCloexec_def syscall_Close_def
          net_FileListener_def File_Close_def Listener_Close_def os_NewFile_def log_def Let_def
          lowest_unused_fresh lowest_unused_fresh_Cons
        split: sum.splits option.splits prod.splits if_splits)
qed

theorem NewListener_error_closes_descriptors_witness:
  "fst (NewListener bsd os_bind_fails ''tcp4'' ''127.0.0.1:8080'' cfg_default s_init) =
     Inl (Errorf ''cannot bind to %q: %s'' [''127.0.0.1:8080''] (Ext ''address already in use''))
   \<and> open_fds (snd (NewListener bsd os_bind_fails ''tcp4'' ''127.0.0.1:8080'' cfg_default s_init))
       = [0, 1, 2]"
proof -
  let ?run = "NewListener bsd os_bind_fails ''tcp4'' ''127.0.0.1:8080'' cfg_default s_init"
  let ?err = "Errorf ''cannot bind to %q: %s'' [''127.0.0.1:8080''] (Ext ''address already in use'')"
  have r: "fst ?run = Inl ?err"
    by (simp add: NewListener_def getSockaddr_def net_ResolveTCPAddr_def newSocketCloexec_def
        fdSetup_def SetsockoptInt_def syscall_Bind_def syscall_Close_def log_def
        os_bind_fails_def os_ok_def resolve_fixed_def cfg_default_def s_init_def)
  then have "?run = (Inl ?err, snd ?run)"
    by (metis prod.collapse)
  then have "open_fds (snd ?run) = open_fds s_init"
    by (rule NewListener_error_closes_descriptors)
  with r show ?thesis
    by (simp add: s_init_def)
qed

subsection \<open>The order of the calls\<close>

lemma Bind_notin_options: "Bind fd' sa \<notin> fst ` set (option_steps P os cfg fd)"
  unfolding set_map [symmetric] option_steps_calls
  by (simp add: option_calls_spec_def)

lemma Listen_notin_options: "Listen fd' b \<notin> fst ` set (option_steps P os cfg fd)"
  unfolding set_map [symmetric] option_steps_calls
  by (simp add: option_calls_spec_def)

lemma SoMaxConn_notin_options: "SoMaxConn \<notin> fst ` set (option_steps P os cfg fd)"
  unfolding set_map [symmetric] option_steps_calls
  by (simp add: option_calls_spec_def)

lemma made_after_options:
  assumes "first_err (option_steps P os cfg fd) = None"
  shows "prefix (option_calls_spec P cfg fd @ [Bind fd sa]) (made (fdSetup_steps P os cfg fd sa addr))"
  using assms by (simp add: fdSetup_steps_def made_append made_all option_steps_calls)

lemma made_reaches_bind:
  assumes "c \<in> set (made (fdSetup_steps P os cfg fd sa addr))"
      and "c \<notin> fst ` set (option_steps P os cfg fd)"
  shows "prefix (option_calls_spec P cfg fd @ [Bind fd sa]) (made (fdSetup_steps P os cfg fd sa addr))"
proof -
  have "first_err (option_steps P os cfg fd) = None"
    using assms made_reaches [of c "option_steps P os cfg fd"] by (simp add: fdSetup_steps_def)
  then show ?thesis by (rule made_after_options)
qed

text \<open>
  C2. The calls \<open>fdSetup\<close> makes are an initial part of the sequence the specification
  lists (reuse-address, TCP_NODELAY, then each requested option in the order port sharing,
  deferred accept, fast open, no-delay, quick-ack, then bind, then listen), and the whole
  sequence when \<open>fdSetup\<close> succeeds; it stops early only at a call that failed. Whenever
  bind or listen is called, every applicable option step and then bind came first.
\<close>

theorem fdSetup_call_order:
  assumes "fdSetup P os cfg fd sa addr s = (r, cfg', s')"
  shows "trace s' = trace s @ calls_during s s'
       \<and> prefix (calls_during s s') (fdSetup_calls_spec P cfg fd sa)
       \<and> (r = None \<longrightarrow> calls_during s s' = fdSetup_calls_spec P cfg fd sa)
       \<and> (Bind fd sa \<in> set (calls_during s s') \<longrightarrow>
            prefix (option_calls_spec P cfg fd @ [Bind fd sa]) (calls_during s s'))
       \<and> (\<forall>b. Listen fd b \<in> set (calls_during s s') \<longrightarrow>
            prefix (option_calls_spec P cfg fd @ [Bind fd sa]) (calls_during s s'))"
proof -
  let ?steps = "fdSetup_steps P os cfg fd sa addr"
  have r: "r = first_err ?steps" and s': "s' = s\<lparr>trace := trace s @ made ?steps\<rparr>"
    using assms by (auto simp: fdSetup_closed_form)
  have calls: "calls_during s s' = made ?steps"
    by (simp add: s')
  have "trace s' = trace s @ calls_during s s'"
    by (simp add: calls) (simp add: s')
  moreover have "prefix (calls_during s s') (fdSetup_calls_spec P cfg fd sa)"
    using made_prefix [of ?steps] by (simp add: calls fdSetup_steps_calls)
  moreover have "r = None \<longrightarrow> calls_during s s' = fdSetup_calls_spec P cfg fd sa"
    using made_all [of ?steps] by (simp add: calls r fdSetup_steps_calls)
  moreover have "Bind fd sa \<in> set (calls_during s s') \<longrightarrow>
      prefix (option_calls_spec P cfg fd @ [Bind fd sa]) (calls_during s s')"
    using made_reaches_bind [OF _ Bind_notin_options] by (simp add: calls)
  moreover have "\<forall>b. Listen fd b \<in> set (calls_during s s') \<longrightarrow>
      prefix (option_calls_spec P cfg fd @ [Bind fd sa]) (calls_during s s')"
    using made_reaches_bind [OF _ Listen_notin_options] by (simp add: calls)
  ultimately show ?thesis by blast
qed

theorem fdSetup_call_order_witness:
  "calls_during s_init
     (snd (snd (fdSetup bsd os_ok cfg_all 3 (SockaddrInet4 8080 [127, 0, 0, 1]) ''127.0.0.1:8080'' s_init)))
   = [Setsockopt 3 SOL_SOCKET SO_REUSEADDR 1, Setsockopt 3 IPPROTO_TCP TCP_NODELAY 1,
      Setsockopt 3 SOL_SOCKET SO_REUSEPORT 1, EnableDeferAccept 3, EnableFastOpen 3,
      EnableNoDelay 3, EnableQuickAck 3, Bind 3 (SockaddrInet4 8080 [127, 0, 0, 1]), Listen 3 17]"
proof -
  let ?sa = "SockaddrInet4 8080 [127, 0, 0, 1]"
  let ?run = "fdSetup bsd os_ok cfg_all 3 ?sa ''127.0.0.1:8080'' s_init"
  have "fst ?run = None"
    by (simp add: fdSetup_def SetsockoptInt_def syscall_Bind_def syscall_Listen_def
        call_enableDeferAccept_def call_enableFastOpen_def call_enableNoDelay_def
        call_enableQuickAck_def bsd_def enableDeferAccept_bsd_def enableFastOpen_bsd_def
        enableNoDelay_bsd_def enableQuickAck_bsd_def os_ok_def cfg_all_def)
  then have "?run = (None, fst (snd ?run), snd (snd ?run))"
    by (metis prod.collapse)
  then have "calls_during s_init (snd (snd ?run)) = fdSetup_calls_spec bsd cfg_all 3 ?sa"
    using fdSetup_call_order [of bsd os_ok cfg_all 3 ?sa "''127.0.0.1:8080''" s_init None]
    by blast
  then show ?thesis
    by (simp add: fdSetup_calls_spec_def option_calls_spec_def listen_calls_spec_def
        cfg_all_def bsd_def soReusePort_bsd_def)
qed

subsection \<open>Unsupported networks\<close>

lemma NewListener_rejects_unsupported_network:
  assumes "network \<notin> {''tcp'', ''tcp4'', ''tcp6''}"
  shows "NewListener P os network addr cfg s =
           (Inl (New ''only tcp4 and tcp6 network is supported''), s)"
  using assms by (simp add: NewListener_def getSockaddr_def)

text \<open>
  C3. Where the package builds the socket itself, a network other than \<open>tcp\<close>, \<open>tcp4\<close>
  and \<open>tcp6\<close> is refused at once with the unsupported-network error: nothing is
  resolved, no call is made and no descriptor is created (the lemma above). The
  \<open>NewListener\<close> of \<open>tcplisten_windows.go\<close>, documented like its sibling as returning a
  TCP listener for \<open>tcp4\<close> and \<open>tcp6\<close> only, has no such check. For the network
  \<open>unix\<close>, where the sibling returns the unsupported-network error with the state
  untouched, it hands the call to \<open>net.Listen\<close>, and when that succeeds it returns a
  listener that owns a new descriptor.
\<close>

theorem NewListener_windows_accepts_unix:
  "NewListener bsd os_ok ''unix'' ''tcplisten.sock'' cfg_default s_init =
     (Inl (New ''only tcp4 and tcp6 network is supported''), s_init)
   \<and> NewListener_windows os_ok ''unix'' ''tcplisten.sock'' cfg_windows s_init =
       (Inr (TCPListener 3),
        \<lparr>open_fds = [3, 0, 1, 2], trace = [NetListen ''unix'' ''tcplisten.sock'']\<rparr>)"
proof -
  have "''unix'' \<notin> {''tcp'', ''tcp4'', ''tcp6''}"
    by simp
  then have "NewListener bsd os_ok ''unix'' ''tcplisten.sock'' cfg_default s_init =
      (Inl (New ''only tcp4 and tcp6 network is supported''), s_init)"
    by (rule NewListener_rejects_unsupported_network)
  moreover have "NewListener_windows os_ok ''unix'' ''tcplisten.sock'' cfg_windows s_init =
      (Inr (TCPListener 3),
       \<lparr>open_fds = [3, 0, 1, 2], trace = [NetListen ''unix'' ''tcplisten.sock'']\<rparr>)"
    by (simp add: NewListener_windows_def net_Listen_def os_ok_def s_init_def log_def
        lowest_unused_init)
  ultimately show ?thesis ..
qed

subsection \<open>The backlog\<close>

lemma Listen_in_made:
  assumes "Listen fd' b \<in> set (made (fdSetup_steps P os cfg fd sa addr))"
  shows "if 0 < Backlog cfg then b = Backlog cfg else soMaxConn P = Inr b"
proof -
  have "Listen fd' b \<in> set (made (listen_steps P os cfg fd addr))"
    using assms made_reaches [of "Listen fd' b" "option_steps P os cfg fd @ [(Bind fd sa, r)]" for r]
      Listen_notin_options [of fd' b P os cfg fd]
    by (simp add: fdSetup_steps_def)
  then have "Listen fd' b \<in> set (map fst (listen_steps P os cfg fd addr))"
    using made_subset [of "listen_steps P os cfg fd addr"] by auto
  then have "Listen fd' b \<in> set (listen_calls_spec P cfg fd)"
    unfolding listen_steps_calls .
  then show ?thesis
    by (auto simp: listen_calls_spec_def split: if_splits sum.splits)
qed

lemma SoMaxConn_in_made:
  assumes "SoMaxConn \<in> set (made (fdSetup_steps P os cfg fd sa addr))"
  shows "Backlog cfg \<le> 0"
    and "soMaxConn P = Inl e \<Longrightarrow>
         first_err (fdSetup_steps P os cfg fd sa addr) =
           Some (Errorf ''cannot determine backlog to pass to listen(2): %s'' [] e)"
proof -
  let ?pre = "option_steps P os cfg fd @
     [(Bind fd sa, map_option (Errorf ''cannot bind to %q: %s'' [addr])
         (map_option Ext (sys_err os (Bind fd sa))))]"
  have split: "fdSetup_steps P os cfg fd sa addr = ?pre @ listen_steps P os cfg fd addr"
    by (simp add: fdSetup_steps_def)
  have "SoMaxConn \<notin> fst ` set ?pre"
    using SoMaxConn_notin_options [of P os cfg fd] by simp
  then have pre: "first_err ?pre = None"
    and q: "SoMaxConn \<in> set (made (listen_steps P os cfg fd addr))"
    using assms made_reaches [of SoMaxConn ?pre "listen_steps P os cfg fd addr"]
    unfolding split by blast+
  from q show le: "Backlog cfg \<le> 0"
    by (auto simp: listen_steps_def split: if_splits option.splits)
  show "first_err (fdSetup_steps P os cfg fd sa addr) =
      Some (Errorf ''cannot determine backlog to pass to listen(2): %s'' [] e)"
    if "soMaxConn P = Inl e"
  proof -
    have "first_err (?pre @ listen_steps P os cfg fd addr) =
        first_err (listen_steps P os cfg fd addr)"
      using first_err_append [of ?pre "listen_steps P os cfg fd addr"] by (simp only: pre option.case)
    then show ?thesis
      unfolding split using le that by (simp add: listen_steps_def)
  qed
qed

lemma NewListener_setup_calls:
  assumes "NewListener P os network addr cfg s = (res, s')"
      and "c \<in> set (calls_during s s')"
      and "c = SoMaxConn \<or> (\<exists>fd b. c = Listen fd b)"
  shows "\<exists>fd sa. c \<in> set (made (fdSetup_steps P os cfg fd sa addr))
           \<and> (\<forall>e. first_err (fdSetup_steps P os cfg fd sa addr) = Some e \<longrightarrow> res = Inl e)"
proof -
  obtain g s1 where g: "getSockaddr os network addr s = (g, s1)"
    by (cases "getSockaddr os network addr s")
  obtain cs where cs: "trace s1 = trace s @ cs"
    and sub: "set cs \<subseteq> {ResolveTCPAddr network addr} \<union> range InterfaceByName"
    using getSockaddr_trace [of os network addr s] by (auto simp: g)
  have no: "c \<notin> set cs"
    using sub assms(3) by auto
  show ?thesis
  proof (cases g)
    case (Inl e)
    then have False
      using assms no cs by (auto simp: NewListener_def g calls_during_def)
    then show ?thesis ..
  next
    case (Inr p)
    obtain sa soType where p: "p = (sa, soType)" by (cases p)
    have "c \<in> set (made (fdSetup_steps P os cfg (lowest_unused (open_fds s1)) sa addr))
        \<and> (\<forall>e. first_err (fdSetup_steps P os cfg (lowest_unused (open_fds s1)) sa addr) = Some e
              \<longrightarrow> res = Inl e)"
      using assms no cs
      by (auto simp: NewListener_def g Inr p calls_during_def fdSetup_closed_form
            newSocketCloexec_def syscall_Close_def net_FileListener_def File_Close_def
            Listener_Close_def os_NewFile_def log_def Let_def lowest_unused_fresh_Cons
          split: sum.splits option.splits prod.splits if_splits)
    then show ?thesis by blast
  qed
qed

text \<open>
  C4. In a call of \<open>NewListener\<close>, every \<open>listen\<close> is given \<open>Config.Backlog\<close> when that
  is positive and otherwise the value \<open>soMaxConn\<close> returned; \<open>soMaxConn\<close> is only asked
  when \<open>Config.Backlog\<close> is not positive, and when it is asked and fails, \<open>NewListener\<close>
  fails with that error wrapped as the backlog-query error.
\<close>

theorem NewListener_backlog:
  assumes "NewListener P os network addr cfg s = (res, s')"
  shows "(\<forall>fd b. Listen fd b \<in> set (calls_during s s') \<longrightarrow>
            (if 0 < Backlog cfg then b = Backlog cfg else soMaxConn P = Inr b))
       \<and> (SoMaxConn \<in> set (calls_during s s') \<longrightarrow> Backlog cfg \<le> 0)
       \<and> (\<forall>e. SoMaxConn \<in> set (calls_during s s') \<and> soMaxConn P = Inl e \<longrightarrow>
            res = Inl (Errorf ''cannot determine backlog to pass to listen(2): %s'' [] e))"
proof -
  have "if 0 < Backlog cfg then b = Backlog cfg else soMaxConn P = Inr b"
    if "Listen fd b \<in> set (calls_during s s')" for fd b
    using NewListener_setup_calls [OF assms that] Listen_in_made by blast
  moreover have "Backlog cfg \<le> 0"
    if "SoMaxConn \<in> set (calls_during s s')"
    using NewListener_setup_calls [OF assms that] SoMaxConn_in_made(1) by blast
  moreover have "res = Inl (Errorf ''cannot determine backlog to pass to listen(2): %s'' [] e)"
    if "SoMaxConn \<in> set (calls_during s s')" and "soMaxConn P = Inl e" for e
    using NewListener_setup_calls [OF assms that(1)] SoMaxConn_in_made(2) [OF _ that(2)] by blast
  ultimately show ?thesis by blast
qed

theorem NewListener_backlog_witness:
  "{b. \<exists>fd. Listen fd b \<in> set (calls_during s_init
        (snd (NewListener bsd os_ok ''tcp4'' ''127.0.0.1:8080'' cfg_all s_init)))} = {17}
   \<and> {b. \<exists>fd. Listen fd b \<in> set (calls_during s_init
        (snd (NewListener bsd os_ok ''tcp4'' ''127.0.0.1:8080'' cfg_default s_init)))} = {128}
   \<and> fst (NewListener (full_featured os_query_fails) os_query_fails ''tcp4'' ''127.0.0.1:8080''
          cfg_default s_init) =
       Inl (Errorf ''cannot determine backlog to pass to listen(2): %s'' [] (Ext ''permission denied''))"
proof -
  let ?a = "NewListener bsd os_ok ''tcp4'' ''127.0.0.1:8080'' cfg_all s_init"
  let ?b = "NewListener bsd os_ok ''tcp4'' ''127.0.0.1:8080'' cfg_default s_init"
  let ?c = "NewListener (full_featured os_query_fails) os_query_fails ''tcp4'' ''127.0.0.1:8080''
              cfg_default s_init"
  have a: "Listen 3 17 \<in> set (calls_during s_init (snd ?a))"
    and b: "Listen 3 128 \<in> set (calls_during s_init (snd ?b))"
    and c: "SoMaxConn \<in> set (calls_during s_init (snd ?c))"
    unfolding run_ok_all run_ok_default run_query_fails
    by (simp_all add: calls_during_def s_init_def)
  have q: "soMaxConn (full_featured os_query_fails) = Inl (Ext ''permission denied'')"
    by (simp add: full_featured_def os_query_fails_def)
  have "\<forall>fd b. Listen fd b \<in> set (calls_during s_init (snd ?a)) \<longrightarrow> b = 17"
    using NewListener_backlog [where P = bsd and os = os_ok and network = "''tcp4''"
        and addr = "''127.0.0.1:8080''" and cfg = cfg_all and s = s_init
        and res = "fst ?a" and s' = "snd ?a", OF surjective_pairing]
    by (simp add: cfg_all_def)
  moreover have "\<forall>fd b. Listen fd b \<in> set (calls_during s_init (snd ?b)) \<longrightarrow> b = 128"
    using NewListener_backlog [where P = bsd and os = os_ok and network = "''tcp4''"
        and addr = "''127.0.0.1:8080''" and cfg = cfg_default and s = s_init
        and res = "fst ?b" and s' = "snd ?b", OF surjective_pairing]
    by (simp add: cfg_default_def bsd_def soMaxConn_bsd_def SOMAXCONN_def)
  moreover have "fst ?c =
      Inl (Errorf ''cannot determine backlog to pass to listen(2): %s'' [] (Ext ''permission denied''))"
    using NewListener_backlog [where P = "full_featured os_query_fails" and os = os_query_fails
        and network = "''tcp4''" and addr = "''127.0.0.1:8080''" and cfg = cfg_default
        and s = s_init and res = "fst ?c" and s' = "snd ?c", OF surjective_pairing] c q
    by blast
  ultimately show ?thesis
    using a b by blast
qed

subsection \<open>The platform without the tunables\<close>

lemma first_err_if:
  "first_err ((if b then [(c, r)] else []) @ xs) =
     (case (if b then r else None) of Some e \<Rightarrow> Some e | None \<Rightarrow> first_err xs)"
  by simp

lemma first_err_options:
  "first_err (fdSetup_steps P os cfg fd sa addr) =
    (case map_option (Errorf ''cannot enable SO_REUSEADDR: %s'' [])
            (map_option Ext (sys_err os (Setsockopt fd SOL_SOCKET SO_REUSEADDR 1))) of
       Some e \<Rightarrow> Some e
     | None \<Rightarrow>
    (case map_option (Errorf (''cannot disable Nagle'' @ [CHR 0x27] @ ''s algorithm: %s'') [])
            (map_option Ext (sys_err os (Setsockopt fd IPPROTO_TCP TCP_NODELAY 1))) of
       Some e \<Rightarrow> Some e
     | None \<Rightarrow>
    (case (if ReusePort cfg
           then map_option (Errorf ''cannot enable SO_REUSEPORT: %s'' [])
                  (map_option Ext (sys_err os (Setsockopt fd SOL_SOCKET (soReusePort P) 1)))
           else None) of
       Some e \<Rightarrow> Some e
     | None \<Rightarrow>
    (case (if DeferAccept cfg then enableDeferAccept P fd else None) of
       Some e \<Rightarrow> Some e
     | None \<Rightarrow>
    (case (if FastOpen cfg then enableFastOpen P fd else None) of
       Some e \<Rightarrow> Some e
     | None \<Rightarrow>
    (case (if NoDelay cfg then enableNoDelay P fd else None) of
       Some e \<Rightarrow> Some e
     | None \<Rightarrow>
    (case (if QuickACK cfg then enableQuickAck P fd else None) of
       Some e \<Rightarrow> Some e
     | None \<Rightarrow>
    (case map_option (Errorf ''cannot bind to %q: %s'' [addr])
            (map_option Ext (sys_err os (Bind fd sa))) of
       Some e \<Rightarrow> Some e
     | None \<Rightarrow> first_err (listen_steps P os cfg fd addr)))))))))"
  unfolding fdSetup_steps_def option_steps_def append_assoc append_Cons append_Nil
    first_err_if first_err.simps
  by (rule refl)

lemma first_err_bsd_flags:
  "first_err (fdSetup_steps bsd os
      (cfg\<lparr>DeferAccept := d, FastOpen := f, NoDelay := n, QuickACK := q\<rparr>) fd sa addr) =
   first_err (fdSetup_steps bsd os cfg fd sa addr)"
  unfolding first_err_options
  by (simp add: bsd_def enableDeferAccept_bsd_def enableFastOpen_bsd_def enableNoDelay_bsd_def
      enableQuickAck_bsd_def listen_steps_def cong: option.case_cong)

text \<open>
  C5. In the BSD platform file the four tunables do nothing and return \<open>nil\<close>. So
  whatever \<open>DeferAccept\<close>, \<open>FastOpen\<close>, \<open>NoDelay\<close> and \<open>QuickACK\<close> are set to,
  \<open>NewListener\<close> returns what it returns for the same \<open>Config\<close> without them, and leaves
  the same descriptors open: asking for one of them never makes it fail. The variant
  without socket-level access does not look at its \<open>Config\<close> at all.
\<close>

theorem NewListener_bsd_tunables_are_noops:
  "enableDeferAccept bsd fd = None \<and> enableFastOpen bsd fd = None
   \<and> enableNoDelay bsd fd = None \<and> enableQuickAck bsd fd = None
   \<and> fst (NewListener bsd os network addr
            (cfg\<lparr>DeferAccept := d, FastOpen := f, NoDelay := n, QuickACK := q\<rparr>) s) =
       fst (NewListener bsd os network addr
            (cfg\<lparr>DeferAccept := False, FastOpen := False, NoDelay := False, QuickACK := False\<rparr>) s)
   \<and> open_fds (snd (NewListener bsd os network addr
            (cfg\<lparr>DeferAccept := d, FastOpen := f, NoDelay := n, QuickACK := q\<rparr>) s)) =
       open_fds (snd (NewListener bsd os network addr
            (cfg\<lparr>DeferAccept := False, FastOpen := False, NoDelay := False, QuickACK := False\<rparr>) s))
   \<and> NewListener_windows os network addr wcfg s =
       NewListener_windows os network addr
         (wcfg\<lparr>DeferAccept_w := False, FastOpen_w := False\<rparr>) s"
proof -
  have ops: "enableDeferAccept bsd fd = None \<and> enableFastOpen bsd fd = None
      \<and> enableNoDelay bsd fd = None \<and> enableQuickAck bsd fd = None"
    by (simp add: bsd_def enableDeferAccept_bsd_def enableFastOpen_bsd_def enableNoDelay_bsd_def
        enableQuickAck_bsd_def)
  have res: "fst (NewListener bsd os network addr
                (cfg\<lparr>DeferAccept := d', FastOpen := f', NoDelay := n', QuickACK := q'\<rparr>) s) =
             fst (NewListener bsd os network addr cfg s)
           \<and> open_fds (snd (NewListener bsd os network addr
                (cfg\<lparr>DeferAccept := d', FastOpen := f', NoDelay := n', QuickACK := q'\<rparr>) s)) =
             open_fds (snd (NewListener bsd os network addr cfg s))" for d' f' n' q'
    by (simp add: NewListener_def fdSetup_closed_form first_err_bsd_flags newSocketCloexec_def
          syscall_Close_def net_FileListener_def File_Close_def Listener_Close_def os_NewFile_def
          log_def Let_def
        split: sum.splits option.splits prod.splits)
  show ?thesis
    using ops res [where d' = d and f' = f and n' = n and q' = q]
      res [where d' = False and f' = False and n' = False and q' = False]
    by (simp add: NewListener_windows_def)
qed

theorem NewListener_bsd_tunables_are_noops_witness:
  "fst (NewListener bsd os_ok ''tcp4'' ''127.0.0.1:8080'' cfg_all s_init) = Inr (TCPListener 4)
   \<and> fst (NewListener bsd os_ok ''tcp4'' ''127.0.0.1:8080''
        (cfg_all\<lparr>DeferAccept := False, FastOpen := False, NoDelay := False, QuickACK := False\<rparr>)
        s_init) = Inr (TCPListener 4)"
proof -
  have "cfg_all\<lparr>DeferAccept := True, FastOpen := True, NoDelay := True, QuickACK := True\<rparr> = cfg_all"
    by (simp add: cfg_all_def)
  then show ?thesis
    using NewListener_bsd_tunables_are_noops [where fd = 3 and os = os_ok and network = "''tcp4''"
        and addr = "''127.0.0.1:8080''" and cfg = cfg_all and d = True and f = True and n = True
        and q = True and s = s_init]
    by (simp add: run_ok_all)
qed

subsection \<open>Failures of the requested options\<close>

lemma NewListener_fdSetup_error:
  assumes "getSockaddr os network addr s = (Inr (sa, soType), s1)"
      and "newSocketCloexec os soType SOCK_STREAM IPPROTO_TCP s1 = (Inr fd, s2)"
      and "first_err (fdSetup_steps P os cfg fd sa addr) = Some e"
  shows "fst (NewListener P os network addr cfg s) = Inl e"
  using assms by (simp add: NewListener_def fdSetup_closed_form)

lemma full_featured_errors:
  "enableDeferAccept (full_featured os) fd = Some e \<Longrightarrow>
     \<exists>oe. sys_err os (EnableDeferAccept fd) = Some oe
        \<and> e = OptionApplicationError ''TCP_DEFER_ACCEPT'' (Ext oe)"
  "enableFastOpen (full_featured os) fd = Some e \<Longrightarrow>
     \<exists>oe. sys_err os (EnableFastOpen fd) = Some oe
        \<and> e = OptionApplicationError ''TCP_FASTOPEN'' (Ext oe)"
  "enableNoDelay (full_featured os) fd = Some e \<Longrightarrow>
     \<exists>oe. sys_err os (EnableNoDelay fd) = Some oe
        \<and> e = OptionApplicationError ''TCP_NODELAY'' (Ext oe)"
  "enableQuickAck (full_featured os) fd = Some e \<Longrightarrow>
     \<exists>oe. sys_err os (EnableQuickAck fd) = Some oe
        \<and> e = OptionApplicationError ''TCP_QUICKACK'' (Ext oe)"
  by (auto simp: full_featured_def)

text \<open>
  C6. Take a call of \<open>NewListener\<close> in which the address resolves, the socket \<open>fd\<close> is
  created and the two unconditional options are set. If \<open>ReusePort\<close> is requested and
  setting the port-sharing option fails, \<open>NewListener\<close> fails with that error wrapped as
  \<open>cannot enable SO_REUSEPORT\<close>. If a later requested option (deferred accept, fast open,
  no-delay, quick-ack, in this order) is the first step to fail, \<open>NewListener\<close> fails
  with exactly the error the platform's function returned, which on the full-featured
  platform is the error of the operating system wrapped with the option's name.
\<close>

theorem NewListener_option_failure:
  assumes gs: "getSockaddr os network addr s = (Inr (sa, soType), s1)"
      and sock: "newSocketCloexec os soType SOCK_STREAM IPPROTO_TCP s1 = (Inr fd, s2)"
      and ok1: "sys_err os (Setsockopt fd SOL_SOCKET SO_REUSEADDR 1) = None"
      and ok2: "sys_err os (Setsockopt fd IPPROTO_TCP TCP_NODELAY 1) = None"
  shows
    "(\<forall>oe. ReusePort cfg \<and> sys_err os (Setsockopt fd SOL_SOCKET (soReusePort P) 1) = Some oe \<longrightarrow>
        fst (NewListener P os network addr cfg s) =
          Inl (Errorf ''cannot enable SO_REUSEPORT: %s'' [] (Ext oe)))
     \<and> ((ReusePort cfg \<longrightarrow> sys_err os (Setsockopt fd SOL_SOCKET (soReusePort P) 1) = None) \<longrightarrow>
        (\<forall>e. DeferAccept cfg \<and> enableDeferAccept P fd = Some e \<longrightarrow>
           fst (NewListener P os network addr cfg s) = Inl e
           \<and> (P = full_featured os \<longrightarrow>
                (\<exists>oe. sys_err os (EnableDeferAccept fd) = Some oe
                   \<and> e = OptionApplicationError ''TCP_DEFER_ACCEPT'' (Ext oe))))
     \<and> ((DeferAccept cfg \<longrightarrow> enableDeferAccept P fd = None) \<longrightarrow>
        (\<forall>e. FastOpen cfg \<and> enableFastOpen P fd = Some e \<longrightarrow>
           fst (NewListener P os network addr cfg s) = Inl e
           \<and> (P = full_featured os \<longrightarrow>
                (\<exists>oe. sys_err os (EnableFastOpen fd) = Some oe
                   \<and> e = OptionApplicationError ''TCP_FASTOPEN'' (Ext oe))))
     \<and> ((FastOpen cfg \<longrightarrow> enableFastOpen P fd = None) \<longrightarrow>
        (\<forall>e. NoDelay cfg \<and> enableNoDelay P fd = Some e \<longrightarrow>
           fst (NewListener P os network addr cfg s) = Inl e
           \<and> (P = full_featured os \<longrightarrow>
                (\<exists>oe. sys_err os (EnableNoDelay fd) = Some oe
                   \<and> e = OptionApplicationError ''TCP_NODELAY'' (Ext oe))))
     \<and> ((NoDelay cfg \<longrightarrow> enableNoDelay P fd = None) \<longrightarrow>
        (\<forall>e. QuickACK cfg \<and> enableQuickAck P fd = Some e \<longrightarrow>
           fst (NewListener P os network addr cfg s) = Inl e
           \<and> (P = full_featured os \<longrightarrow>
                (\<exists>oe. sys_err os (EnableQuickAck fd) = Some oe
                   \<and> e = OptionApplicationError ''TCP_QUICKACK'' (Ext oe))))))))"
proof -
  let ?steps = "fdSetup_steps P os cfg fd sa addr"
  let ?c3 = "Setsockopt fd SOL_SOCKET (soReusePort P) 1"
  note abort = NewListener_fdSetup_error [OF gs sock]
  have r3: "first_err ?steps = Some (Errorf ''cannot enable SO_REUSEPORT: %s'' [] (Ext oe))"
    if "ReusePort cfg" "sys_err os ?c3 = Some oe" for oe
    using that ok1 ok2 by (simp add: first_err_options)
  have r4: "first_err ?steps = Some e"
    if "ReusePort cfg \<longrightarrow> sys_err os ?c3 = None"
      "DeferAccept cfg" "enableDeferAccept P fd = Some e" for e
    using that ok1 ok2 by (simp add: first_err_options)
  have r5: "first_err ?steps = Some e"
    if "ReusePort cfg \<longrightarrow> sys_err os ?c3 = None"
      "DeferAccept cfg \<longrightarrow> enableDeferAccept P fd = None"
      "FastOpen cfg" "enableFastOpen P fd = Some e" for e
    using that ok1 ok2 by (simp add: first_err_options)
  have r6: "first_err ?steps = Some e"
    if "ReusePort cfg \<longrightarrow> sys_err os ?c3 = None"
      "DeferAccept cfg \<longrightarrow> enableDeferAccept P fd = None"
      "FastOpen cfg \<longrightarrow> enableFastOpen P fd = None"
      "NoDelay cfg" "enableNoDelay P fd = Some e" for e
    using that ok1 ok2 by (simp add: first_err_options)
  have r7: "first_err ?steps = Some e"
    if "ReusePort cfg \<longrightarrow> sys_err os ?c3 = None"
      "DeferAccept cfg \<longrightarrow> enableDeferAccept P fd = None"
      "FastOpen cfg \<longrightarrow> enableFastOpen P fd = None"
      "NoDelay cfg \<longrightarrow> enableNoDelay P fd = None"
      "QuickACK cfg" "enableQuickAck P fd = Some e" for e
    using that ok1 ok2 by (simp add: first_err_options)
  show ?thesis
    using abort [OF r3] abort [OF r4] abort [OF r5] abort [OF r6] abort [OF r7]
      full_featured_errors [of os fd]
    by blast
qed

lemma getSockaddr_loopback:
  "resolve os = resolve_fixed \<Longrightarrow>
   getSockaddr os ''tcp4'' ''127.0.0.1:8080'' s_init =
     (Inr (SockaddrInet4 8080 [127, 0, 0, 1], AF_INET),
      s_init\<lparr>trace := [ResolveTCPAddr ''tcp4'' ''127.0.0.1:8080'']\<rparr>)"
  by (simp add: getSockaddr_def net_ResolveTCPAddr_def resolve_fixed_def log_def s_init_def
      copy_def zero_bytes_def To4_def)

lemma newSocketCloexec_first:
  "sys_err os (Socket AF_INET SOCK_STREAM IPPROTO_TCP) = None \<Longrightarrow>
   newSocketCloexec os AF_INET SOCK_STREAM IPPROTO_TCP
       (s_init\<lparr>trace := [ResolveTCPAddr ''tcp4'' ''127.0.0.1:8080'']\<rparr>) =
     (Inr 3, \<lparr>open_fds = [3, 0, 1, 2],
              trace = [ResolveTCPAddr ''tcp4'' ''127.0.0.1:8080'',
                       Socket AF_INET SOCK_STREAM IPPROTO_TCP]\<rparr>)"
  by (simp add: newSocketCloexec_def log_def s_init_def lowest_unused_init)

theorem NewListener_option_failure_witness:
  "fst (NewListener bsd os_reuseport_fails ''tcp4'' ''127.0.0.1:8080'' cfg_all s_init) =
     Inl (Errorf ''cannot enable SO_REUSEPORT: %s'' [] (Ext ''protocol not available''))
   \<and> fst (NewListener (full_featured os_defer_fails) os_defer_fails ''tcp4'' ''127.0.0.1:8080''
            cfg_all s_init) =
     Inl (OptionApplicationError ''TCP_DEFER_ACCEPT'' (Ext ''protocol not available''))"
proof -
  have a: "fst (NewListener bsd os_reuseport_fails ''tcp4'' ''127.0.0.1:8080'' cfg_all s_init) =
      Inl (Errorf ''cannot enable SO_REUSEPORT: %s'' [] (Ext ''protocol not available''))"
    using NewListener_option_failure [where os = os_reuseport_fails and P = bsd and cfg = cfg_all
        and fd = 3, OF getSockaddr_loopback newSocketCloexec_first]
    by (simp add: os_reuseport_fails_def os_ok_def cfg_all_def bsd_def soReusePort_bsd_def)
  have "enableDeferAccept (full_featured os_defer_fails) 3 =
      Some (OptionApplicationError ''TCP_DEFER_ACCEPT'' (Ext ''protocol not available''))"
    by (simp add: full_featured_def os_defer_fails_def)
  then have b: "fst (NewListener (full_featured os_defer_fails) os_defer_fails ''tcp4''
        ''127.0.0.1:8080'' cfg_all s_init) =
      Inl (OptionApplicationError ''TCP_DEFER_ACCEPT'' (Ext ''protocol not available''))"
    using NewListener_option_failure [where os = os_defer_fails
        and P = "full_featured os_defer_fails" and cfg = cfg_all and fd = 3,
        OF getSockaddr_loopback newSocketCloexec_first]
    by (simp add: os_defer_fails_def os_ok_def cfg_all_def full_featured_def)
  from a b show ?thesis ..
qed

subsection \<open>The socket address\<close>

lemma replicate_zero_bytes:
  "replicate 4 (0::byte) = [0, 0, 0, 0]"
  "replicate 10 (0::byte) = [0, 0, 0, 0, 0, 0, 0, 0, 0, 0]"
  "replicate 13 (0::byte) = [0, 0, 0, 0, 0, 0, 0, 0, 0, 0, 0, 0, 0]"
  "replicate 15 (0::byte) = [0, 0, 0, 0, 0, 0, 0, 0, 0, 0, 0, 0, 0, 0, 0]"
  "replicate 16 (0::byte) = [0, 0, 0, 0, 0, 0, 0, 0, 0, 0, 0, 0, 0, 0, 0, 0]"
  by (simp_all add: numeral_eq_Suc)

lemma length_copy [simp]: "length (copy dst src) = length dst"
  by (simp add: copy_def)

lemma copy_same_length: "length src = length dst \<Longrightarrow> copy dst src = src"
  by (simp add: copy_def)

lemma length_To4: "To4 ip \<noteq> [] \<Longrightarrow> length (To4 ip) = 4"
  by (auto simp: To4_def split: if_splits)

lemma length_To16: "To16 ip \<noteq> [] \<Longrightarrow> length (To16 ip) = 16"
  by (auto simp: To16_def v4InV6Prefix_def split: if_splits)

text \<open>
  C7. When the resolver returns the address \<open>a\<close>: for \<open>tcp\<close> and \<open>tcp4\<close> the result is
  an IPv4 socket address with the port of \<open>a\<close> and four address bytes (those of the
  4-byte form of the IP when it has one); for \<open>tcp6\<close> it is an IPv6 socket address with
  the port of \<open>a\<close> and sixteen address bytes (those of the 16-byte form of the IP when it
  has one), with zone id 0 when \<open>a\<close> has no zone and the index of the interface named
  by the zone otherwise. When no interface has that name, \<open>getSockaddr\<close> fails with the
  lookup's error and \<open>NewListener\<close> returns it after the two lookups, with no other call
  made and no descriptor created.
\<close>

theorem getSockaddr_address_family:
  assumes "resolve os network addr = Inr a"
  shows "(network = ''tcp'' \<or> network = ''tcp4'' \<longrightarrow>
            fst (getSockaddr os network addr s) =
              Inr (SockaddrInet4 (Port a) (copy (zero_bytes 4) (To4 (IP a))), AF_INET)
            \<and> length (copy (zero_bytes 4) (To4 (IP a))) = 4
            \<and> (To4 (IP a) \<noteq> [] \<longrightarrow> copy (zero_bytes 4) (To4 (IP a)) = To4 (IP a)))
       \<and> (network = ''tcp6'' \<longrightarrow>
            length (copy (zero_bytes 16) (To16 (IP a))) = 16
            \<and> (To16 (IP a) \<noteq> [] \<longrightarrow> copy (zero_bytes 16) (To16 (IP a)) = To16 (IP a))
            \<and> (Zone a = '''' \<longrightarrow>
                 fst (getSockaddr os network addr s) =
                   Inr (SockaddrInet6 (Port a) 0 (copy (zero_bytes 16) (To16 (IP a))), AF_INET6))
            \<and> (\<forall>ifi. Zone a \<noteq> '''' \<and> iface os (Zone a) = Inr ifi \<longrightarrow>
                 fst (getSockaddr os network addr s) =
                   Inr (SockaddrInet6 (Port a) (word_of_int (Index ifi))
                          (copy (zero_bytes 16) (To16 (IP a))), AF_INET6))
            \<and> (\<forall>e. Zone a \<noteq> '''' \<and> iface os (Zone a) = Inl e \<longrightarrow>
                 fst (getSockaddr os network addr s) = Inl (Ext e)
                 \<and> NewListener P os network addr cfg s =
                     (Inl (Ext e),
                      s\<lparr>trace := trace s @ [ResolveTCPAddr network addr, InterfaceByName (Zone a)]\<rparr>)))"
proof -
  have len4: "To4 (IP a) \<noteq> [] \<longrightarrow> copy (zero_bytes 4) (To4 (IP a)) = To4 (IP a)"
    by (simp add: copy_same_length length_To4 zero_bytes_def)
  have len16: "To16 (IP a) \<noteq> [] \<longrightarrow> copy (zero_bytes 16) (To16 (IP a)) = To16 (IP a)"
    by (simp add: copy_same_length length_To16 zero_bytes_def)
  have v4: "network = ''tcp'' \<or> network = ''tcp4'' \<longrightarrow>
      fst (getSockaddr os network addr s) =
        Inr (SockaddrInet4 (Port a) (copy (zero_bytes 4) (To4 (IP a))), AF_INET)"
    using assms by (auto simp: getSockaddr_def net_ResolveTCPAddr_def)
  have v6: "network = ''tcp6'' \<longrightarrow>
      (Zone a = '''' \<longrightarrow>
         fst (getSockaddr os network addr s) =
           Inr (SockaddrInet6 (Port a) 0 (copy (zero_bytes 16) (To16 (IP a))), AF_INET6))
      \<and> (\<forall>ifi. Zone a \<noteq> '''' \<and> iface os (Zone a) = Inr ifi \<longrightarrow>
           fst (getSockaddr os network addr s) =
             Inr (SockaddrInet6 (Port a) (word_of_int (Index ifi))
                    (copy (zero_bytes 16) (To16 (IP a))), AF_INET6))
      \<and> (\<forall>e. Zone a \<noteq> '''' \<and> iface os (Zone a) = Inl e \<longrightarrow>
           fst (getSockaddr os network addr s) = Inl (Ext e)
           \<and> NewListener P os network addr cfg s =
               (Inl (Ext e),
                s\<lparr>trace := trace s @ [ResolveTCPAddr network addr, InterfaceByName (Zone a)]\<rparr>))"
    using assms
    by (auto simp: NewListener_def getSockaddr_def net_ResolveTCPAddr_def net_InterfaceByName_def
        log_def)
  show ?thesis
    using len4 len16 v4 v6 by (simp add: zero_bytes_def)
qed

theorem getSockaddr_address_family_witness:
  "fst (getSockaddr os_ok ''tcp4'' ''127.0.0.1:8080'' s_init) =
     Inr (SockaddrInet4 8080 [127, 0, 0, 1], AF_INET)
   \<and> fst (getSockaddr os_ok ''tcp6'' ''[::1]:8080'' s_init) =
     Inr (SockaddrInet6 8080 0 [0, 0, 0, 0, 0, 0, 0, 0, 0, 0, 0, 0, 0, 0, 0, 1], AF_INET6)
   \<and> fst (getSockaddr os_ok ''tcp6'' ''[fe80::1%eth0]:8080'' s_init) =
     Inr (SockaddrInet6 8080 2 [0xfe, 0x80, 0, 0, 0, 0, 0, 0, 0, 0, 0, 0, 0, 0, 0, 1], AF_INET6)
   \<and> NewListener bsd os_ok ''tcp6'' ''[fe80::1%nosuch0]:8080'' cfg_default s_init =
     (Inl (Ext ''no such network interface''),
      \<lparr>open_fds = [0, 1, 2],
       trace = [ResolveTCPAddr ''tcp6'' ''[fe80::1%nosuch0]:8080'', InterfaceByName ''nosuch0'']\<rparr>)"
proof -
  have a: "resolve os_ok ''tcp4'' ''127.0.0.1:8080'' =
      Inr \<lparr>IP = [127, 0, 0, 1], Port = 8080, Zone = ''''\<rparr>"
    and b: "resolve os_ok ''tcp6'' ''[::1]:8080'' =
      Inr \<lparr>IP = replicate 15 0 @ [1], Port = 8080, Zone = ''''\<rparr>"
    and c: "resolve os_ok ''tcp6'' ''[fe80::1%eth0]:8080'' =
      Inr \<lparr>IP = [0xfe, 0x80] @ replicate 13 0 @ [1], Port = 8080, Zone = ''eth0''\<rparr>"
    and d: "resolve os_ok ''tcp6'' ''[fe80::1%nosuch0]:8080'' =
      Inr \<lparr>IP = [0xfe, 0x80] @ replicate 13 0 @ [1], Port = 8080, Zone = ''nosuch0''\<rparr>"
    by (simp_all add: os_ok_def resolve_fixed_def)
  have i: "iface os_ok ''eth0'' = Inr \<lparr>Index = 2\<rparr>"
    and j: "iface os_ok ''nosuch0'' = Inl ''no such network interface''"
    by (simp_all add: os_ok_def iface_fixed_def)
  show ?thesis
    using getSockaddr_address_family [OF a, of s_init bsd cfg_default]
      getSockaddr_address_family [OF b, of s_init bsd cfg_default]
      getSockaddr_address_family [OF c, of s_init bsd cfg_default]
      getSockaddr_address_family [OF d, of s_init bsd cfg_default]
    by (simp add: i j replicate_zero_bytes To4_def To16_def s_init_def)
qed

subsection \<open>The Config is only read\<close>

text \<open>
  C8. \<open>fdSetup\<close>, which receives the \<open>Config\<close> through a pointer, leaves it as it was,
  on success and on every failure: the \<open>Config\<close> it hands back is the one it was given.
  (\<open>NewListener\<close> takes its \<open>Config\<close> by value, so the caller's value is out of its
  reach.)
\<close>

theorem fdSetup_leaves_Config:
  "fst (snd (fdSetup P os cfg fd sa addr s)) = cfg"
  by (simp add: fdSetup_closed_form)

theorem fdSetup_leaves_Config_witness:
  "fst (snd (fdSetup bsd os_bind_fails cfg_all 3 (SockaddrInet4 8080 [127, 0, 0, 1])
               ''127.0.0.1:8080'' s_init)) = cfg_all
   \<and> fst (snd (fdSetup bsd os_ok cfg_all 3 (SockaddrInet4 8080 [127, 0, 0, 1])
               ''127.0.0.1:8080'' s_init)) = cfg_all"
  using fdSetup_leaves_Config [of bsd os_bind_fails cfg_all 3]
    fdSetup_leaves_Config [of bsd os_ok cfg_all 3]
  by simp

subsection \<open>The wildcard address\<close>

text \<open>
  C9. For \<open>tcp\<close> and \<open>tcp4\<close>, when the resolved IP has no 4-byte form (\<open>To4\<close> returns
  \<open>nil\<close>, as for a \<open>nil\<close> IP or an IPv6 address outside \<open>::ffff:0:0/96\<close>), resolution
  succeeds with the IPv4 socket address \<open>0.0.0.0\<close> and the resolved port.
\<close>

theorem getSockaddr_wildcard_without_ipv4_form:
  assumes "network = ''tcp'' \<or> network = ''tcp4''"
      and "resolve os network addr = Inr a"
      and "To4 (IP a) = []"
  shows "fst (getSockaddr os network addr s) = Inr (SockaddrInet4 (Port a) [0, 0, 0, 0], AF_INET)"
  using assms
  by (auto simp: getSockaddr_def net_ResolveTCPAddr_def copy_def zero_bytes_def replicate_zero_bytes)

theorem getSockaddr_wildcard_without_ipv4_form_witness:
  "To4 [] = [] \<and> To4 (replicate 15 0 @ [1]) = []
   \<and> fst (getSockaddr os_ok ''tcp4'' '':8080'' s_init) =
       Inr (SockaddrInet4 8080 [0, 0, 0, 0], AF_INET)
   \<and> fst (getSockaddr os_ok ''tcp'' ''[::1]:8080'' s_init) =
       Inr (SockaddrInet4 8080 [0, 0, 0, 0], AF_INET)"
proof -
  have a: "resolve os_ok ''tcp4'' '':8080'' = Inr \<lparr>IP = [], Port = 8080, Zone = ''''\<rparr>"
    and b: "resolve os_ok ''tcp'' ''[::1]:8080'' =
      Inr \<lparr>IP = replicate 15 0 @ [1], Port = 8080, Zone = ''''\<rparr>"
    by (simp_all add: os_ok_def resolve_fixed_def)
  have t: "To4 [] = []" "To4 (replicate 15 0 @ [1]) = []"
    by (simp_all add: To4_def v4InV6Prefix_def replicate_zero_bytes)
  show ?thesis
    using getSockaddr_wildcard_without_ipv4_form [OF _ a, of s_init]
      getSockaddr_wildcard_without_ipv4_form [OF _ b, of s_init] t
    by simp
qed

subsection \<open>The default branch of the switch\<close>

text \<open>
  C10. The \<open>default\<close> branch of the switch in \<open>getSockaddr\<close> is dead: whatever the
  network, the address and the answers of the resolver, \<open>getSockaddr\<close> never returns the
  error \<open>Unknown network type ...\<close>.
\<close>

theorem getSockaddr_default_unreachable:
  "fst (getSockaddr os network addr s) \<noteq> Inl (New (''Unknown network type '' @ n))"
  by (auto simp: getSockaddr_def net_ResolveTCPAddr_def net_InterfaceByName_def
           split: sum.splits prod.splits)


end
